theory Spec2Isabelle
  imports Main "HOL-Library.Multiset" "HOL-Library.Sublist"
begin

section \<open>Data model of the task manager\<close>

text \<open>
  The types imported by \<^verbatim>\<open>App.tsx\<close> from \<^verbatim>\<open>types.ts\<close>. A task and a label are
  plain objects; every field the component reads or writes is a record field here.
  The fields named \<^verbatim>\<open>id\<close> carry a suffix, as \<open>id\<close> is the identity function of HOL.
\<close>

datatype Priority = LOW | MEDIUM | HIGH

datatype TimeRange = RToday | RTomorrow | RPast | RUpcoming | RAll

datatype ViewType = ListView | AgendaView | NotesView

record Task =
  id_task :: string
  title :: string
  description :: string
  dueDate :: string
  completed :: bool
  priority :: Priority
  labelIds :: "string list"
  createdAt :: string

record Label =
  id_label :: string
  name :: string
  color :: string

text \<open>
  \<^verbatim>\<open>Partial<Task>\<close>: every key may be absent. \<open>None\<close> is an absent key, \<open>Some v\<close> a key
  that is present with value \<open>v\<close>.
\<close>

record PartialTask =
  p_id :: "string option"
  p_title :: "string option"
  p_description :: "string option"
  p_dueDate :: "string option"
  p_completed :: "bool option"
  p_priority :: "Priority option"
  p_labelIds :: "string list option"
  p_createdAt :: "string option"

text \<open>
  The state held by the hooks of the \<^verbatim>\<open>App\<close> component (lines 14 to 38).
\<close>

record AppState =
  tasks :: "Task list"
  labels :: "Label list"
  viewType :: ViewType
  activeRange :: TimeRange
  isTaskModalOpen :: bool
  isLabelManagerOpen :: bool
  editingTask :: "Task option"
  searchQuery :: string
  mobileMenuOpen :: bool

text \<open>
  What the component reads from the platform while it runs. The calendar and the clock
  are inputs of the model: \<open>currentDay\<close> is the local calendar day of "now" as a day
  number, \<open>dayOf\<close> gives the local calendar day of a due-date string (\<open>None\<close> when the
  string is not a date), and \<open>timeOf s\<close> is \<^verbatim>\<open>new Date(s).getTime()\<close> in milliseconds
  (\<open>None\<close> is \<^verbatim>\<open>NaN\<close>, the time of an invalid date).
\<close>

record DateEnv =
  currentDay :: int
  dayOf :: "string \<Rightarrow> int option"
  timeOf :: "string \<Rightarrow> int option"

text \<open>
  The values \<^verbatim>\<open>saveTask\<close> and the label handler draw from the platform in one call:
  \<open>randomText\<close> is \<^verbatim>\<open>Math.random().toString(36)\<close>, \<open>localDateString\<close> is
  \<^verbatim>\<open>getLocalDateString()\<close>, \<open>isoString\<close> is \<^verbatim>\<open>new Date().toISOString()\<close> and \<open>nowMs\<close>
  is \<^verbatim>\<open>Date.now()\<close>.
\<close>

record Ambient =
  randomText :: string
  localDateString :: string
  isoString :: string
  nowMs :: nat

record Stats =
  past :: nat
  today :: nat
  tomorrow :: nat
  upcoming :: nat

section \<open>Strings\<close>

text \<open>
  \<^verbatim>\<open>s || d\<close> on a string: the empty string is falsy. On an optional key, an absent
  key is falsy as well.
\<close>

definition orElse :: "string \<Rightarrow> string \<Rightarrow> string" where
  "orElse s d = (if s = [] then d else s)"

definition optOrElse :: "string option \<Rightarrow> string \<Rightarrow> string" where
  "optOrElse v d = (case v of None \<Rightarrow> d | Some s \<Rightarrow> orElse s d)"

text \<open>
  The characters of the model are the code units 0 to 255, that is Latin-1; a code
  unit above 255 is outside the model. \<^verbatim>\<open>toLowerCase\<close> works character by character
  there: each capital letter, A to Z and the accented capitals 0xC0 to 0xDE but for the
  multiplication sign 0xD7, goes to its small letter, and every other character is
  kept.
\<close>

definition capitals :: string where
  "capitals = ''ABCDEFGHIJKLMNOPQRSTUVWXYZ'' @
     [CHR 0xC0, CHR 0xC1, CHR 0xC2, CHR 0xC3, CHR 0xC4, CHR 0xC5, CHR 0xC6, CHR 0xC7,
      CHR 0xC8, CHR 0xC9, CHR 0xCA, CHR 0xCB, CHR 0xCC, CHR 0xCD, CHR 0xCE, CHR 0xCF,
      CHR 0xD0, CHR 0xD1, CHR 0xD2, CHR 0xD3, CHR 0xD4, CHR 0xD5, CHR 0xD6,
      CHR 0xD8, CHR 0xD9, CHR 0xDA, CHR 0xDB, CHR 0xDC, CHR 0xDD, CHR 0xDE]"

definition smalls :: string where
  "smalls = ''abcdefghijklmnopqrstuvwxyz'' @
     [CHR 0xE0, CHR 0xE1, CHR 0xE2, CHR 0xE3, CHR 0xE4, CHR 0xE5, CHR 0xE6, CHR 0xE7,
      CHR 0xE8, CHR 0xE9, CHR 0xEA, CHR 0xEB, CHR 0xEC, CHR 0xED, CHR 0xEE, CHR 0xEF,
      CHR 0xF0, CHR 0xF1, CHR 0xF2, CHR 0xF3, CHR 0xF4, CHR 0xF5, CHR 0xF6,
      CHR 0xF8, CHR 0xF9, CHR 0xFA, CHR 0xFB, CHR 0xFC, CHR 0xFD, CHR 0xFE]"

definition lowerChar :: "char \<Rightarrow> char" where
  "lowerChar c = (case map_of (zip capitals smalls) c of None \<Rightarrow> c | Some l \<Rightarrow> l)"

definition toLowerCase :: "string \<Rightarrow> string" where
  "toLowerCase s = map lowerChar s"

text \<open>
  \<^verbatim>\<open>s.includes(q)\<close>: \<open>q\<close> occurs in \<open>s\<close> as a contiguous run of characters, at the
  first position or at a later one.
\<close>

fun includes_str :: "string \<Rightarrow> string \<Rightarrow> bool" where
  "includes_str [] q = (q = [])"
| "includes_str (c # cs) q = (prefix q (c # cs) \<or> includes_str cs q)"

text \<open>\<^verbatim>\<open>s.substr(start, len)\<close> with a non-negative start.\<close>

definition substr :: "string \<Rightarrow> nat \<Rightarrow> nat \<Rightarrow> string" where
  "substr s start len = take len (drop start s)"

text \<open>The decimal digits of a number, as a template literal prints them.\<close>

definition digitChar :: "nat \<Rightarrow> char" where
  "digitChar d = ''0123456789'' ! d"

fun decimal :: "nat \<Rightarrow> string" where
  "decimal n = (if n < 10 then [digitChar n] else decimal (n div 10) @ [digitChar (n mod 10)])"

declare decimal.simps [simp del]

section \<open>Date buckets (utils/dateUtils.ts)\<close>

definition isToday :: "DateEnv \<Rightarrow> string \<Rightarrow> bool" where
  \<comment> \<open>Modelled from the spec: \<^verbatim>\<open>utils/dateUtils.ts\<close> is not among the sources. "today" =
      due date's calendar day equals current calendar day.\<close>
  "isToday e d = (dayOf e d = Some (currentDay e))"

definition isTomorrow :: "DateEnv \<Rightarrow> string \<Rightarrow> bool" where
  \<comment> \<open>Modelled from the spec: \<^verbatim>\<open>utils/dateUtils.ts\<close> is not among the sources.
      "tomorrow" = equals current day + 1.\<close>
  "isTomorrow e d = (dayOf e d = Some (currentDay e + 1))"

definition isPast :: "DateEnv \<Rightarrow> string \<Rightarrow> bool" where
  \<comment> \<open>Modelled from the spec: \<^verbatim>\<open>utils/dateUtils.ts\<close> is not among the sources. "past" =
      due date's calendar day is strictly before current day.\<close>
  "isPast e d = (case dayOf e d of None \<Rightarrow> False | Some k \<Rightarrow> k < currentDay e)"

section \<open>Derived view model (App.tsx, lines 48 to 79)\<close>

definition stats :: "DateEnv \<Rightarrow> Task list \<Rightarrow> Stats" where
  "stats e ts =
     \<lparr> past = length (filter (\<lambda>t. isPast e (dueDate t) \<and> \<not> completed t) ts),
       today = length (filter (\<lambda>t. isToday e (dueDate t) \<and> \<not> completed t) ts),
       tomorrow = length (filter (\<lambda>t. isTomorrow e (dueDate t) \<and> \<not> completed t) ts),
       upcoming = length (filter (\<lambda>t. \<not> isPast e (dueDate t) \<and> \<not> isToday e (dueDate t)
                                     \<and> \<not> isTomorrow e (dueDate t) \<and> \<not> completed t) ts) \<rparr>"

definition matchesSearch :: "string \<Rightarrow> Task \<Rightarrow> bool" where
  "matchesSearch query task =
     (let titleLower = toLowerCase (orElse (title task) []);
          descLower = toLowerCase (orElse (description task) []);
          queryLower = toLowerCase query
      in includes_str titleLower queryLower \<or> includes_str descLower queryLower)"

text \<open>The \<^verbatim>\<open>switch\<close> of lines 68 to 74; its \<^verbatim>\<open>default\<close> branch is the last case.\<close>

fun inRange :: "DateEnv \<Rightarrow> TimeRange \<Rightarrow> string \<Rightarrow> bool" where
  "inRange e RToday d = isToday e d"
| "inRange e RTomorrow d = isTomorrow e d"
| "inRange e RPast d = isPast e d"
| "inRange e RUpcoming d = (\<not> isPast e d \<and> \<not> isToday e d \<and> \<not> isTomorrow e d)"
| "inRange e RAll d = True"

definition keepTask :: "DateEnv \<Rightarrow> string \<Rightarrow> TimeRange \<Rightarrow> Task \<Rightarrow> bool" where
  "keepTask e query rng task =
     (if \<not> matchesSearch query task then False
      else if rng = RAll then True
      else inRange e rng (dueDate task))"

text \<open>
  The comparator of lines 76 and 77. Its result is a number or \<^verbatim>\<open>NaN\<close> (\<open>None\<close>): the
  difference of two times is \<^verbatim>\<open>NaN\<close> as soon as one of the dates is invalid.
\<close>

definition compareTasks :: "DateEnv \<Rightarrow> Task \<Rightarrow> Task \<Rightarrow> int option" where
  "compareTasks e a b =
     (if completed a \<noteq> completed b then Some (if completed a then 1 else - 1)
      else (case (timeOf e (dueDate a), timeOf e (dueDate b)) of
              (Some x, Some y) \<Rightarrow> Some (x - y)
            | _ \<Rightarrow> None))"

text \<open>
  \<^verbatim>\<open>Array.prototype.sort\<close> with a comparator; a \<^verbatim>\<open>NaN\<close> result counts as \<open>+0\<close>. The sort
  is stable. When the comparison values order the elements of the list consistently,
  every sort that is correct and stable returns the same list: the elements in
  ascending order, those that compare equal in the order they had. The insertion sort
  below computes that list: an element is placed before the first element of the
  sorted rest that it does not exceed. This is so for the comparator of the tasks when
  all due dates are valid, and also when every comparison on the list gives \<open>0\<close>.
  When a \<^verbatim>\<open>NaN\<close> stands between two different valid dates the comparison values are not
  consistent, the language leaves the order to the engine, and \<open>sortBy\<close> is then not
  the order an engine returns: for such lists only the contents of the result, which
  are those of the input for every engine, are taken from the model.
\<close>

definition sortCompare :: "('a \<Rightarrow> 'a \<Rightarrow> int option) \<Rightarrow> 'a \<Rightarrow> 'a \<Rightarrow> int" where
  "sortCompare cmp x y = (case cmp x y of None \<Rightarrow> 0 | Some v \<Rightarrow> v)"

fun insertBy :: "('a \<Rightarrow> 'a \<Rightarrow> int option) \<Rightarrow> 'a \<Rightarrow> 'a list \<Rightarrow> 'a list" where
  "insertBy cmp x [] = [x]"
| "insertBy cmp x (y # ys) =
     (if sortCompare cmp x y \<le> 0 then x # y # ys else y # insertBy cmp x ys)"

fun sortBy :: "('a \<Rightarrow> 'a \<Rightarrow> int option) \<Rightarrow> 'a list \<Rightarrow> 'a list" where
  "sortBy cmp [] = []"
| "sortBy cmp (x # xs) = insertBy cmp x (sortBy cmp xs)"

definition filteredTasks :: "DateEnv \<Rightarrow> Task list \<Rightarrow> string \<Rightarrow> TimeRange \<Rightarrow> Task list" where
  "filteredTasks e ts query rng =
     sortBy (compareTasks e) (filter (keepTask e query rng) ts)"

section \<open>Operations on the state (App.tsx, lines 81 to 110 and 264 to 265)\<close>

text \<open>The object spread \<^verbatim>\<open>{ ...t, ...updates }\<close>: a key of \<open>updates\<close> wins.\<close>

definition spread :: "Task \<Rightarrow> PartialTask \<Rightarrow> Task" where
  "spread t u =
     \<lparr> id_task = (case p_id u of None \<Rightarrow> id_task t | Some v \<Rightarrow> v),
       title = (case p_title u of None \<Rightarrow> title t | Some v \<Rightarrow> v),
       description = (case p_description u of None \<Rightarrow> description t | Some v \<Rightarrow> v),
       dueDate = (case p_dueDate u of None \<Rightarrow> dueDate t | Some v \<Rightarrow> v),
       completed = (case p_completed u of None \<Rightarrow> completed t | Some v \<Rightarrow> v),
       priority = (case p_priority u of None \<Rightarrow> priority t | Some v \<Rightarrow> v),
       labelIds = (case p_labelIds u of None \<Rightarrow> labelIds t | Some v \<Rightarrow> v),
       createdAt = (case p_createdAt u of None \<Rightarrow> createdAt t | Some v \<Rightarrow> v) \<rparr>"

definition noUpdates :: PartialTask where
  "noUpdates =
     \<lparr> p_id = None, p_title = None, p_description = None, p_dueDate = None,
       p_completed = None, p_priority = None, p_labelIds = None, p_createdAt = None \<rparr>"

definition updateTaskList :: "string \<Rightarrow> PartialTask \<Rightarrow> Task list \<Rightarrow> Task list" where
  "updateTaskList i updates prev = map (\<lambda>t. if id_task t = i then spread t updates else t) prev"

definition updateTask :: "string \<Rightarrow> PartialTask \<Rightarrow> AppState \<Rightarrow> AppState" where
  "updateTask i updates st = st\<lparr>tasks := updateTaskList i updates (tasks st)\<rparr>"

definition newTask :: "Ambient \<Rightarrow> PartialTask \<Rightarrow> Task" where
  "newTask amb taskData =
     \<lparr> id_task = substr (randomText amb) 2 9,
       title = optOrElse (p_title taskData) [],
       description = optOrElse (p_description taskData) [],
       dueDate = optOrElse (p_dueDate taskData) (localDateString amb),
       completed = False,
       priority = (case p_priority taskData of None \<Rightarrow> MEDIUM | Some p \<Rightarrow> p),
       labelIds = (case p_labelIds taskData of None \<Rightarrow> [] | Some ls \<Rightarrow> ls),
       createdAt = isoString amb \<rparr>"

definition saveTask :: "Ambient \<Rightarrow> PartialTask \<Rightarrow> AppState \<Rightarrow> AppState" where
  "saveTask amb taskData st =
     (let st' = (case editingTask st of
                   Some edited \<Rightarrow> updateTask (id_task edited) taskData st
                 | None \<Rightarrow> st\<lparr>tasks := newTask amb taskData # tasks st\<rparr>)
      in st'\<lparr>isTaskModalOpen := False, editingTask := None\<rparr>)"

text \<open>
  \<^verbatim>\<open>!tasks.find(t => t.id === id)?.completed\<close>: when no task has the identifier the
  optional chain gives \<^verbatim>\<open>undefined\<close>, whose negation is \<^verbatim>\<open>true\<close>.
\<close>

definition toggleTask :: "string \<Rightarrow> AppState \<Rightarrow> AppState" where
  "toggleTask i st =
     updateTask i
       (noUpdates\<lparr>p_completed :=
          Some (case find (\<lambda>t. id_task t = i) (tasks st) of
                  None \<Rightarrow> True
                | Some t \<Rightarrow> \<not> completed t)\<rparr>)
       st"

definition deleteTask :: "bool \<Rightarrow> string \<Rightarrow> AppState \<Rightarrow> AppState" where
  "deleteTask confirmed i st =
     (if confirmed then st\<lparr>tasks := filter (\<lambda>t. id_task t \<noteq> i) (tasks st)\<rparr> else st)"

definition onAdd :: "Ambient \<Rightarrow> string \<Rightarrow> string \<Rightarrow> AppState \<Rightarrow> AppState" where
  "onAdd amb n c st =
     st\<lparr>labels := labels st @ [\<lparr> id_label = ''l-'' @ decimal (nowMs amb), name = n, color = c \<rparr>]\<rparr>"

definition onDelete :: "string \<Rightarrow> AppState \<Rightarrow> AppState" where
  "onDelete i st = st\<lparr>labels := filter (\<lambda>l. id_label l \<noteq> i) (labels st)\<rparr>"

section \<open>JSON texts (the platform's \<^verbatim>\<open>JSON.stringify\<close> and \<^verbatim>\<open>JSON.parse\<close>)\<close>

text \<open>
  The two functions belong to the platform, not to the repository. They are modelled for
  the values that tasks and labels are made of: \<^verbatim>\<open>null\<close>, the booleans, strings, arrays
  and objects, an object being the list of its members in the order of the text.
  Numbers are left out: no field of a task or a label is a number, and a text that holds
  a number is refused by the parser of the model. Characters are the 8-bit characters
  of the other strings of this theory, so an escape \<^verbatim>\<open>\u\<close> above \<^verbatim>\<open>00ff\<close> is refused too.
\<close>

datatype json = JNull | JBool bool | JStr string | JArr "json list" | JObj "(string \<times> json) list"

definition hexDigit :: "nat \<Rightarrow> char" where
  "hexDigit d = ''0123456789abcdef'' ! d"

definition hexDigitValue :: "char \<Rightarrow> nat option" where
  "hexDigitValue c =
     map_of (zip ''0123456789abcdefABCDEF''
                 [0, 1, 2, 3, 4, 5, 6, 7, 8, 9, 10, 11, 12, 13, 14, 15, 10, 11, 12, 13, 14, 15]) c"

definition hexValue4 :: "char \<Rightarrow> char \<Rightarrow> char \<Rightarrow> char \<Rightarrow> nat option" where
  "hexValue4 a b c d =
     (case (hexDigitValue a, hexDigitValue b, hexDigitValue c, hexDigitValue d) of
        (Some p, Some q, Some r, Some s) \<Rightarrow> Some (((p * 16 + q) * 16 + r) * 16 + s)
      | _ \<Rightarrow> None)"

text \<open>
  Quoting a string: the quote and the backslash are escaped, the control characters
  below the space are written by their short escape or as \<^verbatim>\<open>\u00XX\<close>, and every other
  character stands for itself.
\<close>

definition isControl :: "char \<Rightarrow> bool" where
  "isControl c = ((of_char c :: nat) < 32)"

definition escapeChar :: "char \<Rightarrow> string" where
  "escapeChar c =
     (if c = CHR 0x22 then [CHR 0x5C, CHR 0x22]
      else if c = CHR 0x5C then [CHR 0x5C, CHR 0x5C]
      else if c = CHR 0x08 then [CHR 0x5C, CHR ''b'']
      else if c = CHR 0x0C then [CHR 0x5C, CHR ''f'']
      else if c = CHR 0x0A then [CHR 0x5C, CHR ''n'']
      else if c = CHR 0x0D then [CHR 0x5C, CHR ''r'']
      else if c = CHR 0x09 then [CHR 0x5C, CHR ''t'']
      else if isControl c then
        [CHR 0x5C, CHR ''u'', CHR ''0'', CHR ''0'',
         hexDigit ((of_char c :: nat) div 16), hexDigit ((of_char c :: nat) mod 16)]
      else [c])"

definition quote :: "string \<Rightarrow> string" where
  "quote s = CHR 0x22 # concat (map escapeChar s) @ [CHR 0x22]"

fun commaSep :: "string list \<Rightarrow> string" where
  "commaSep [] = []"
| "commaSep [x] = x"
| "commaSep (x # y # ys) = x @ CHR '','' # commaSep (y # ys)"

fun JSON_stringify :: "json \<Rightarrow> string" where
  "JSON_stringify JNull = ''null''"
| "JSON_stringify (JBool b) = (if b then ''true'' else ''false'')"
| "JSON_stringify (JStr s) = quote s"
| "JSON_stringify (JArr xs) = CHR ''['' # commaSep (map JSON_stringify xs) @ '']''"
| "JSON_stringify (JObj kvs) =
     CHR ''{'' # commaSep (map (\<lambda>(k, v). quote k @ CHR '':'' # JSON_stringify v) kvs) @ ''}''"

text \<open>The characters a printed value can start with.\<close>

definition startsValue :: "char \<Rightarrow> bool" where
  "startsValue c = (c \<in> set [CHR ''n'', CHR ''t'', CHR ''f'', CHR 0x22, CHR ''['', CHR ''{''])"

definition memberText :: "string \<times> json \<Rightarrow> string" where
  "memberText kv = quote (fst kv) @ CHR '':'' # JSON_stringify (snd kv)"

text \<open>
  Parsing: white space may stand between the tokens. \<open>parseChars\<close> reads a string after
  its opening quote. The parser of values carries fuel, one unit for each nesting of a
  call, and \<open>JSON_parse\<close> gives it more fuel than the text has characters; \<open>None\<close> is
  the \<^verbatim>\<open>SyntaxError\<close> that \<^verbatim>\<open>JSON.parse\<close> throws.
\<close>

definition isWs :: "char \<Rightarrow> bool" where
  "isWs c = (c = CHR '' '' \<or> c = CHR 0x09 \<or> c = CHR 0x0A \<or> c = CHR 0x0D)"

definition skipWs :: "string \<Rightarrow> string" where
  "skipWs s = dropWhile isWs s"

definition unescape :: "char \<Rightarrow> char option" where
  "unescape e =
     (if e = CHR 0x22 then Some (CHR 0x22)
      else if e = CHR 0x5C then Some (CHR 0x5C)
      else if e = CHR ''/'' then Some (CHR ''/'')
      else if e = CHR ''b'' then Some (CHR 0x08)
      else if e = CHR ''f'' then Some (CHR 0x0C)
      else if e = CHR ''n'' then Some (CHR 0x0A)
      else if e = CHR ''r'' then Some (CHR 0x0D)
      else if e = CHR ''t'' then Some (CHR 0x09)
      else None)"

definition consChar :: "char \<Rightarrow> (string \<times> string) option \<Rightarrow> (string \<times> string) option" where
  "consChar c r = (case r of None \<Rightarrow> None | Some (s, rest) \<Rightarrow> Some (c # s, rest))"

fun parseChars :: "string \<Rightarrow> (string \<times> string) option" where
  "parseChars [] = None"
| "parseChars (c # cs) =
     (if c = CHR 0x22 then Some ([], cs)
      else if c = CHR 0x5C then
        (case cs of
           [] \<Rightarrow> None
         | e # r \<Rightarrow>
             if e = CHR ''u'' then
               (case r of
                  h1 # h2 # h3 # h4 # r' \<Rightarrow>
                    (case hexValue4 h1 h2 h3 h4 of
                       None \<Rightarrow> None
                     | Some n \<Rightarrow> if n < 256 then consChar (char_of n) (parseChars r') else None)
                | _ \<Rightarrow> None)
             else (case unescape e of None \<Rightarrow> None | Some d \<Rightarrow> consChar d (parseChars r)))
      else if isControl c then None
      else consChar c (parseChars cs))"

fun parseValue :: "nat \<Rightarrow> string \<Rightarrow> (json \<times> string) option"
  and parseElements :: "nat \<Rightarrow> string \<Rightarrow> (json list \<times> string) option"
  and parseMembers :: "nat \<Rightarrow> string \<Rightarrow> ((string \<times> json) list \<times> string) option" where
  "parseValue 0 s = None"
| "parseValue (Suc n) s =
     (case s of
        [] \<Rightarrow> None
      | c # cs \<Rightarrow>
          if c = CHR 0x22 then
            (case parseChars cs of None \<Rightarrow> None | Some (str, rest) \<Rightarrow> Some (JStr str, rest))
          else if c = CHR ''['' then
            (case skipWs cs of
               [] \<Rightarrow> None
             | d # ds \<Rightarrow>
                 if d = CHR '']'' then Some (JArr [], ds)
                 else (case parseElements n (d # ds) of
                         None \<Rightarrow> None
                       | Some (xs, rest) \<Rightarrow> Some (JArr xs, rest)))
          else if c = CHR ''{'' then
            (case skipWs cs of
               [] \<Rightarrow> None
             | d # ds \<Rightarrow>
                 if d = CHR ''}'' then Some (JObj [], ds)
                 else (case parseMembers n (d # ds) of
                         None \<Rightarrow> None
                       | Some (kvs, rest) \<Rightarrow> Some (JObj kvs, rest)))
          else if prefix ''null'' s then Some (JNull, drop 4 s)
          else if prefix ''true'' s then Some (JBool True, drop 4 s)
          else if prefix ''false'' s then Some (JBool False, drop 5 s)
          else None)"
| "parseElements 0 s = None"
| "parseElements (Suc n) s =
     (case parseValue n s of
        None \<Rightarrow> None
      | Some (x, rest) \<Rightarrow>
          (case skipWs rest of
             [] \<Rightarrow> None
           | d # ds \<Rightarrow>
               if d = CHR '']'' then Some ([x], ds)
               else if d = CHR '','' then
                 (case parseElements n (skipWs ds) of
                    None \<Rightarrow> None
                  | Some (xs, rest') \<Rightarrow> Some (x # xs, rest'))
               else None))"
| "parseMembers 0 s = None"
| "parseMembers (Suc n) s =
     (case s of
        [] \<Rightarrow> None
      | c # cs \<Rightarrow>
          if c = CHR 0x22 then
            (case parseChars cs of
               None \<Rightarrow> None
             | Some (k, rest) \<Rightarrow>
                 (case skipWs rest of
                    [] \<Rightarrow> None
                  | d # ds \<Rightarrow>
                      if d = CHR '':'' then
                        (case parseValue n (skipWs ds) of
                           None \<Rightarrow> None
                         | Some (v, rest') \<Rightarrow>
                             (case skipWs rest' of
                                [] \<Rightarrow> None
                              | d' # ds' \<Rightarrow>
                                  if d' = CHR ''}'' then Some ([(k, v)], ds')
                                  else if d' = CHR '','' then
                                    (case parseMembers n (skipWs ds') of
                                       None \<Rightarrow> None
                                     | Some (kvs, rest'') \<Rightarrow> Some ((k, v) # kvs, rest''))
                                  else None))
                      else None))
          else None)"

definition JSON_parse :: "string \<Rightarrow> json option" where
  "JSON_parse s =
     (case parseValue (Suc (length s)) (skipWs s) of
        None \<Rightarrow> None
      | Some (v, rest) \<Rightarrow> if skipWs rest = [] then Some v else None)"

section \<open>Persistence (App.tsx, lines 14 to 30 and 40 to 46)\<close>

text \<open>
  The object of a task and of a label, with the keys in the order in which \<^verbatim>\<open>saveTask\<close>
  and the label handler write them.
\<close>

definition priorityText :: "Priority \<Rightarrow> string" where
  \<comment> \<open>Modelled from the spec: the enumeration \<^verbatim>\<open>Priority\<close> is declared in \<^verbatim>\<open>types.ts\<close>,
      which is not among the sources. "priority (enumerated: low/medium/high or
      similar)".\<close>
  "priorityText p = (case p of LOW \<Rightarrow> ''low'' | MEDIUM \<Rightarrow> ''medium'' | HIGH \<Rightarrow> ''high'')"

definition taskJson :: "Task \<Rightarrow> json" where
  "taskJson t =
     JObj [(''id'', JStr (id_task t)), (''title'', JStr (title t)),
           (''description'', JStr (description t)), (''dueDate'', JStr (dueDate t)),
           (''completed'', JBool (completed t)), (''priority'', JStr (priorityText (priority t))),
           (''labelIds'', JArr (map JStr (labelIds t))), (''createdAt'', JStr (createdAt t))]"

definition labelJson :: "Label \<Rightarrow> json" where
  "labelJson l =
     JObj [(''id'', JStr (id_label l)), (''name'', JStr (name l)), (''color'', JStr (color l))]"

definition tasksJson :: "Task list \<Rightarrow> json" where
  "tasksJson ts = JArr (map taskJson ts)"

definition labelsJson :: "Label list \<Rightarrow> json" where
  "labelsJson ls = JArr (map labelJson ls)"

text \<open>
  The two effects write the whole list under its key on every change. The storage is
  a map from keys to texts, \<^verbatim>\<open>getItem\<close> giving \<^verbatim>\<open>null\<close> (\<open>None\<close>) for a key that is absent.
\<close>

definition persistTasks :: "Task list \<Rightarrow> (string \<rightharpoonup> string) \<Rightarrow> (string \<rightharpoonup> string)" where
  "persistTasks ts storage = storage(''tasks_v4_premium'' \<mapsto> JSON_stringify (tasksJson ts))"

definition persistLabels :: "Label list \<Rightarrow> (string \<rightharpoonup> string) \<Rightarrow> (string \<rightharpoonup> string)" where
  "persistLabels ls storage = storage(''labels_v4_premium'' \<mapsto> JSON_stringify (labelsJson ls))"

text \<open>
  The initializer of a state: the stored text when there is one, parsed; the built-in
  seed when the key is absent, when the text is empty (the empty string is falsy) and
  when parsing throws. The parser and the seed are parameters: \<^verbatim>\<open>JSON.parse\<close> can give
  any value, and \<^verbatim>\<open>constants.tsx\<close> with the seeds is not among the sources.
\<close>

definition loadStored :: "(string \<Rightarrow> 'v option) \<Rightarrow> (string \<rightharpoonup> string) \<Rightarrow> string \<Rightarrow> 'v \<Rightarrow> 'v" where
  "loadStored parse storage key initial =
     (case storage key of
        None \<Rightarrow> initial
      | Some saved \<Rightarrow>
          if saved = [] then initial
          else (case parse saved of None \<Rightarrow> initial | Some v \<Rightarrow> v))"

definition initialTasks :: "(string \<Rightarrow> 'v option) \<Rightarrow> (string \<rightharpoonup> string) \<Rightarrow> 'v \<Rightarrow> 'v" where
  "initialTasks parse storage INITIAL_TASKS =
     loadStored parse storage ''tasks_v4_premium'' INITIAL_TASKS"

definition initialLabels :: "(string \<Rightarrow> 'v option) \<Rightarrow> (string \<rightharpoonup> string) \<Rightarrow> 'v \<Rightarrow> 'v" where
  "initialLabels parse storage INITIAL_LABELS =
     loadStored parse storage ''labels_v4_premium'' INITIAL_LABELS"

text \<open>
  The same initializer with everything that the \<^verbatim>\<open>try\<close> block of lines 15 to 20 encloses:
  \<^verbatim>\<open>getItem\<close> stands in the block as well, and it throws when the storage cannot be
  read. A call that may throw is an \<open>attempt\<close>. \<open>loadStored\<close> above is this initializer
  on a storage that can be read.
\<close>

datatype 'a attempt = Throws | Returns 'a

record Storage =
  items :: "string \<rightharpoonup> string"
  readable :: bool

definition getItem :: "Storage \<Rightarrow> string \<Rightarrow> string option attempt" where
  "getItem store key = (if readable store then Returns (items store key) else Throws)"

definition readStored :: "(string \<Rightarrow> 'v attempt) \<Rightarrow> Storage \<Rightarrow> string \<Rightarrow> 'v \<Rightarrow> 'v" where
  "readStored parse store key INITIAL =
     (case getItem store key of
        Throws \<Rightarrow> INITIAL
      | Returns saved \<Rightarrow>
          (case saved of
             None \<Rightarrow> INITIAL
           | Some text \<Rightarrow>
               if text = [] then INITIAL
               else (case parse text of Throws \<Rightarrow> INITIAL | Returns v \<Rightarrow> v)))"

definition tasksInitializer :: "(string \<Rightarrow> 'v attempt) \<Rightarrow> Storage \<Rightarrow> 'v \<Rightarrow> 'v" where
  "tasksInitializer parse store INITIAL_TASKS =
     readStored parse store ''tasks_v4_premium'' INITIAL_TASKS"

definition labelsInitializer :: "(string \<Rightarrow> 'v attempt) \<Rightarrow> Storage \<Rightarrow> 'v \<Rightarrow> 'v" where
  "labelsInitializer parse store INITIAL_LABELS =
     readStored parse store ''labels_v4_premium'' INITIAL_LABELS"

definition attemptOf :: "'a option \<Rightarrow> 'a attempt" where
  "attemptOf r = (case r of None \<Rightarrow> Throws | Some v \<Rightarrow> Returns v)"

definition parseOrThrow :: "string \<Rightarrow> json attempt" where
  "parseOrThrow text = attemptOf (JSON_parse text)"

section \<open>Start of the program (index.tsx)\<close>

text \<open>
  The module logs a line, looks the element \<^verbatim>\<open>#root\<close> up and renders the component into
  it; when the document has no such element (\<open>None\<close>) it logs an error and renders
  nothing. The result is what the console has received and the element rendered into.
  The two letters of the messages beyond ASCII are given by their codes.
\<close>

datatype ConsoleEntry = ConsoleLog string | ConsoleError string

record 'el Boot =
  console :: "ConsoleEntry list"
  rendered :: "'el option"

definition startMessage :: string where
  "startMessage = ''TaskPro AI: Inicializando m'' @ [CHR 0xF3] @ ''dulo principal...''"

definition rootMissing :: string where
  "rootMissing = ''Erro: Elemento #root n'' @ [CHR 0xE3] @ ''o encontrado no DOM.''"

definition indexMain :: "'el option \<Rightarrow> 'el Boot" where
  "indexMain container =
     (case container of
        Some c \<Rightarrow> \<lparr> console = [ConsoleLog startMessage], rendered = Some c \<rparr>
      | None \<Rightarrow> \<lparr> console = [ConsoleLog startMessage, ConsoleError rootMissing], rendered = None \<rparr>)"

section \<open>The properties, in the words of the specification\<close>

text \<open>
  Case-insensitive containment, stated on the codes of the characters and without the
  lower-casing of the code. A character is a capital letter when its code is between
  65 and 90 or between 192 and 222 but not 215. Two characters are the same letter when
  they are equal or one is a capital letter and the other stands 32 codes above it.
  Two strings are the same up to case when they have the same length and hold the same
  letter at every position; \<open>s\<close> contains \<open>q\<close> case-insensitively when some run of \<open>s\<close>
  is the same as \<open>q\<close> up to case.
\<close>

definition isCapital :: "char \<Rightarrow> bool" where
  "isCapital c =
     (let n = (of_char c :: nat)
      in (65 \<le> n \<and> n \<le> 90) \<or> (192 \<le> n \<and> n \<le> 222 \<and> n \<noteq> 215))"

definition sameLetter :: "char \<Rightarrow> char \<Rightarrow> bool" where
  "sameLetter x y =
     (x = y \<or> (isCapital x \<and> (of_char y :: nat) = of_char x + 32)
            \<or> (isCapital y \<and> (of_char x :: nat) = of_char y + 32))"

definition sameIgnoringCase :: "string \<Rightarrow> string \<Rightarrow> bool" where
  "sameIgnoringCase a b = list_all2 sameLetter a b"

definition containsIgnoringCase :: "string \<Rightarrow> string \<Rightarrow> bool" where
  "containsIgnoringCase s q =
     (\<exists>k \<in> {..length s}. sameIgnoringCase (take (length q) (drop k s)) q)"

text \<open>
  A task is due before, on or after a calendar day when its due date has a calendar
  day and that day is before, on or after the given one.
\<close>

definition dueBefore :: "DateEnv \<Rightarrow> int \<Rightarrow> Task \<Rightarrow> bool" where
  "dueBefore e day t = (case dayOf e (dueDate t) of None \<Rightarrow> False | Some k \<Rightarrow> k < day)"

definition dueOn :: "DateEnv \<Rightarrow> int \<Rightarrow> Task \<Rightarrow> bool" where
  "dueOn e day t = (case dayOf e (dueDate t) of None \<Rightarrow> False | Some k \<Rightarrow> k = day)"

definition dueAfter :: "DateEnv \<Rightarrow> int \<Rightarrow> Task \<Rightarrow> bool" where
  "dueAfter e day t = (case dayOf e (dueDate t) of None \<Rightarrow> False | Some k \<Rightarrow> day < k)"

definition undated :: "DateEnv \<Rightarrow> Task \<Rightarrow> bool" where
  "undated e t = (dayOf e (dueDate t) = None)"

definition countTasks :: "(Task \<Rightarrow> bool) \<Rightarrow> Task list \<Rightarrow> nat" where
  "countTasks P ts = size (filter_mset P (mset ts))"





section \<open>Sample data\<close>

text \<open>
  A calendar of four days around 2 January 2024 (day 19724 since 1 January 1970), the
  times being those of midnight UTC, and four tasks on it.
\<close>

definition sampleDays :: "string \<Rightarrow> int option" where
  "sampleDays =
     map_of [(''2024-01-01'', 19723), (''2024-01-02'', 19724),
             (''2024-01-03'', 19725), (''2024-01-09'', 19731)]"

definition sampleEnv :: DateEnv where
  "sampleEnv =
     \<lparr> currentDay = 19724,
       dayOf = sampleDays,
       timeOf = (\<lambda>s. map_option (\<lambda>d. d * 86400000) (sampleDays s)) \<rparr>"

definition taskMilk :: Task where
  "taskMilk =
     \<lparr> id_task = ''i'', title = ''Buy Milk'', description = [], dueDate = ''2024-01-01'',
       completed = False, priority = MEDIUM, labelIds = [''l-1704153600000''],
       createdAt = ''2023-12-30T08:00:00.000Z'' \<rparr>"

definition taskReport :: Task where
  "taskReport =
     \<lparr> id_task = ''k3x9'', title = ''Write report'', description = ''Quarterly MILK sales'',
       dueDate = ''2024-01-02'', completed = True, priority = HIGH, labelIds = [],
       createdAt = ''2023-12-30T09:00:00.000Z'' \<rparr>"

definition taskCall :: Task where
  "taskCall =
     \<lparr> id_task = ''p7q'', title = ''Call Ana'', description = [], dueDate = ''2024-01-03'',
       completed = False, priority = LOW, labelIds = [],
       createdAt = ''2023-12-31T09:00:00.000Z'' \<rparr>"

definition taskTrip :: Task where
  "taskTrip =
     \<lparr> id_task = ''z01'', title = ''Plan trip'', description = ''milky way tour'',
       dueDate = ''2024-01-09'', completed = False, priority = MEDIUM, labelIds = [],
       createdAt = ''2023-12-31T10:00:00.000Z'' \<rparr>"

definition sampleTasks :: "Task list" where
  "sampleTasks = [taskTrip, taskReport, taskCall, taskMilk]"

definition labelHome :: Label where
  "labelHome = \<lparr> id_label = ''l-1704153600000'', name = ''Home'', color = ''#22c55e'' \<rparr>"

definition labelWork :: Label where
  "labelWork = \<lparr> id_label = ''l-1704153600001'', name = ''Work'', color = ''#6366f1'' \<rparr>"

definition sampleState :: AppState where
  "sampleState =
     \<lparr> tasks = sampleTasks, labels = [labelHome, labelWork], viewType = ListView,
       activeRange = RToday, isTaskModalOpen = True, isLabelManagerOpen = False,
       editingTask = None, searchQuery = [], mobileMenuOpen = False \<rparr>"

text \<open>
  A moment at which \<^verbatim>\<open>Math.random()\<close> returns one half, whose text in base 36 is
  \<^verbatim>\<open>0.i\<close>, and \<^verbatim>\<open>Date.now()\<close> returns 1704153600000.
\<close>

definition sampleAmbient :: Ambient where
  "sampleAmbient =
     \<lparr> randomText = ''0.i'', localDateString = ''2024-01-02'',
       isoString = ''2024-01-02T00:00:00.000Z'', nowMs = 1704153600000 \<rparr>"

text \<open>
  A task whose due date is no date, a task with an accented capital in its title, and a
  storage that holds a list of tasks but cannot be read.
\<close>

definition taskSomeday :: Task where
  "taskSomeday =
     \<lparr> id_task = ''w5e'', title = ''Sort photos'', description = [], dueDate = ''someday'',
       completed = False, priority = LOW, labelIds = [],
       createdAt = ''2023-12-31T11:00:00.000Z'' \<rparr>"

definition taskCafe :: Task where
  "taskCafe =
     \<lparr> id_task = ''c8f'', title = ''CAF'' @ [CHR 0xC9], description = [],
       dueDate = ''2024-01-02'', completed = False, priority = LOW, labelIds = [],
       createdAt = ''2023-12-31T12:00:00.000Z'' \<rparr>"

definition blockedStore :: Storage where
  "blockedStore = \<lparr> items = [''tasks_v4_premium'' \<mapsto> ''[]''], readable = False \<rparr>"

lemmas more_defs = taskSomeday_def taskCafe_def

lemmas eval_defs = filteredTasks_def keepTask_def matchesSearch_def orElse_def toLowerCase_def
  lowerChar_def capitals_def smalls_def prefix_code compareTasks_def sortCompare_def
  isPast_def isToday_def isTomorrow_def

lemmas sample_defs = sampleEnv_def sampleDays_def sampleTasks_def taskMilk_def taskReport_def
  taskCall_def taskTrip_def sampleState_def labelHome_def labelWork_def sampleAmbient_def

section \<open>Search\<close>

lemma orElse_empty: "orElse s [] = s"
  by (simp add: orElse_def)

lemma prefix_take: "prefix q s \<longleftrightarrow> take (length q) s = q"
  by (metis append_eq_conv_conj append_take_drop_id prefix_def)

lemma includes_str_iff:
  "includes_str s q \<longleftrightarrow> (\<exists>k \<in> {..length s}. take (length q) (drop k s) = q)"
proof (induction s)
  case Nil
  show ?case by auto
next
  case (Cons c cs)
  have "(\<exists>k \<in> {..length (c # cs)}. take (length q) (drop k (c # cs)) = q)
        \<longleftrightarrow> take (length q) (c # cs) = q
            \<or> (\<exists>k \<in> {..length cs}. take (length q) (drop k cs) = q)"
  proof
    assume "\<exists>k \<in> {..length (c # cs)}. take (length q) (drop k (c # cs)) = q"
    then obtain k where k: "k \<le> Suc (length cs)" "take (length q) (drop k (c # cs)) = q"
      by auto
    show "take (length q) (c # cs) = q
            \<or> (\<exists>k \<in> {..length cs}. take (length q) (drop k cs) = q)"
    proof (cases k)
      case 0
      with k show ?thesis by simp
    next
      case (Suc j)
      with k have "j \<in> {..length cs}" "take (length q) (drop j cs) = q" by simp_all
      then show ?thesis by blast
    qed
  next
    assume "take (length q) (c # cs) = q
            \<or> (\<exists>k \<in> {..length cs}. take (length q) (drop k cs) = q)"
    then show "\<exists>k \<in> {..length (c # cs)}. take (length q) (drop k (c # cs)) = q"
    proof
      assume "take (length q) (c # cs) = q"
      then have "take (length q) (drop 0 (c # cs)) = q" by simp
      then show ?thesis by (metis atMost_iff le0)
    next
      assume "\<exists>k \<in> {..length cs}. take (length q) (drop k cs) = q"
      then obtain j where "j \<le> length cs" "take (length q) (drop j cs) = q" by auto
      then have "Suc j \<in> {..length (c # cs)}" "take (length q) (drop (Suc j) (c # cs)) = q"
        by simp_all
      then show ?thesis by blast
    qed
  qed
  with Cons.IH show ?case by (simp add: prefix_take)
qed

lemma map_eq_all2: "map f a = map f b \<longleftrightarrow> list_all2 (\<lambda>x y. f x = f y) a b"
proof (induction a arbitrary: b)
  case Nil
  show ?case by simp
next
  case (Cons x a)
  then show ?case by (cases b) simp_all
qed

text \<open>
  The lower-casing of the code against the letters of the specification: the code of
  the lower-cased character, checked on each of the 256 characters.
\<close>

lemma lowerChar_code:
  "(of_char (lowerChar c) :: nat) = (if isCapital c then of_char c + 32 else of_char c)"
proof (cases c)
  case (Char b0 b1 b2 b3 b4 b5 b6 b7)
  show ?thesis
    unfolding Char
    by (cases b0; cases b1; cases b2; cases b3; cases b4; cases b5; cases b6; cases b7;
        simp add: lowerChar_def capitals_def smalls_def isCapital_def)
qed

lemma lowerChar_same: "lowerChar x = lowerChar y \<longleftrightarrow> sameLetter x y"
proof -
  have "lowerChar x = lowerChar y \<longleftrightarrow> (of_char (lowerChar x) :: nat) = of_char (lowerChar y)"
    by simp
  also have "\<dots> \<longleftrightarrow> sameLetter x y"
    unfolding lowerChar_code sameLetter_def
    using of_char_eq_iff [of x y, where ?'a = nat]
    by (auto simp: isCapital_def Let_def)
  finally show ?thesis .
qed

lemma includes_lower:
  "includes_str (toLowerCase s) (toLowerCase q) \<longleftrightarrow> containsIgnoringCase s q"
  by (simp add: includes_str_iff toLowerCase_def containsIgnoringCase_def sameIgnoringCase_def
      drop_map take_map map_eq_all2 lowerChar_same)

lemma matchesSearch_iff:
  "matchesSearch q t \<longleftrightarrow>
     containsIgnoringCase (title t) q \<or> containsIgnoringCase (description t) q"
  by (simp add: matchesSearch_def orElse_empty includes_lower)

lemma includes_str_empty: "includes_str s []"
  by (induction s) simp_all

lemma matchesSearch_empty: "matchesSearch [] t"
  by (simp add: matchesSearch_def toLowerCase_def includes_str_empty)

section \<open>The sort\<close>

lemma mset_insertBy: "mset (insertBy cmp x ys) = add_mset x (mset ys)"
  by (induction ys) simp_all

lemma mset_sortBy: "mset (sortBy cmp xs) = mset xs"
  by (induction xs) (simp_all add: mset_insertBy)









section \<open>The filtered list\<close>

lemma keepTask_iff:
  "keepTask e q rng t \<longleftrightarrow> matchesSearch q t \<and> (rng = RAll \<or> inRange e rng (dueDate t))"
  by (simp add: keepTask_def)

lemma sample_filtered_all:
  "filteredTasks sampleEnv sampleTasks [] RAll = [taskMilk, taskCall, taskTrip, taskReport]"
  by (simp add: eval_defs sample_defs)

lemma sample_filtered_today:
  "filteredTasks sampleEnv sampleTasks [] RToday = [taskReport]"
  by (simp add: eval_defs sample_defs)

lemma sample_filtered_cafe:
  "filteredTasks sampleEnv [taskCafe, taskCall] (''caf'' @ [CHR 0xE9]) RAll = [taskCafe]"
  by (simp add: eval_defs sample_defs more_defs)


text \<open>
  Claim C1. For every task list, search query and active range, the filtered list holds
  exactly the tasks, each as often as the task list holds it, whose title or description
  contains the query case-insensitively and whose due date satisfies the predicate of
  the selected range, the range "all" accepting every due date. The component never
  changes its query (\<^verbatim>\<open>setSearchQuery\<close> is not called), so the query it filters with is
  the empty one: every task contains it, the list then holds the tasks that the range
  accepts, and with the range "all" it holds all tasks.
\<close>

theorem filteredTasks_contents:
  "mset (filteredTasks e ts q rng) =
     filter_mset
       (\<lambda>t. (containsIgnoringCase (title t) q \<or> containsIgnoringCase (description t) q)
             \<and> (rng = RAll \<or> inRange e rng (dueDate t)))
       (mset ts)
   \<and> mset (filteredTasks e ts [] rng) =
       filter_mset (\<lambda>t. rng = RAll \<or> inRange e rng (dueDate t)) (mset ts)
   \<and> mset (filteredTasks e ts [] RAll) = mset ts"
proof -
  have kept: "keepTask e q' r =
        (\<lambda>t. (containsIgnoringCase (title t) q' \<or> containsIgnoringCase (description t) q')
              \<and> (r = RAll \<or> inRange e r (dueDate t)))" for q' r
    by (rule ext) (simp only: keepTask_iff matchesSearch_iff)
  have general: "mset (filteredTasks e ts q rng) =
     filter_mset
       (\<lambda>t. (containsIgnoringCase (title t) q \<or> containsIgnoringCase (description t) q)
             \<and> (rng = RAll \<or> inRange e rng (dueDate t)))
       (mset ts)"
    by (simp add: filteredTasks_def mset_sortBy kept)
  have empty: "keepTask e [] r = (\<lambda>t. r = RAll \<or> inRange e r (dueDate t))" for r
    by (rule ext) (simp add: keepTask_iff matchesSearch_empty)
  have ranged: "mset (filteredTasks e ts [] rng) =
       filter_mset (\<lambda>t. rng = RAll \<or> inRange e rng (dueDate t)) (mset ts)"
    by (simp add: filteredTasks_def mset_sortBy empty)
  have whole: "mset (filteredTasks e ts [] RAll) = mset ts"
    by (simp add: filteredTasks_def mset_sortBy empty)
  from general ranged whole show ?thesis by blast
qed

text \<open>
  Claim C9. The empty query is accepted by the search predicate for every task, so the
  filtered list for the empty query is the sorted list of the tasks that the range
  predicate keeps.
\<close>

theorem empty_query_filter:
  "(\<forall>t. matchesSearch [] t)
   \<and> filteredTasks e ts [] rng =
       sortBy (compareTasks e) (filter (\<lambda>t. inRange e rng (dueDate t)) ts)"
proof -
  have "keepTask e [] rng = (\<lambda>t. inRange e rng (dueDate t))"
    by (rule ext) (simp add: keepTask_def matchesSearch_empty)
  then show ?thesis
    by (simp add: filteredTasks_def matchesSearch_empty)
qed



section \<open>Date buckets and counts\<close>

text \<open>
  Claim C4. For a fixed environment, that is a fixed "now", every due date satisfies
  exactly one of the four range predicates past, today, tomorrow and upcoming.
\<close>

theorem range_partition:
  "length (filter (\<lambda>r. inRange e r d) [RPast, RToday, RTomorrow, RUpcoming]) = 1"
  by (cases "dayOf e d") (auto simp: isPast_def isToday_def isTomorrow_def)

lemma upcoming_later:
  "dayOf e d = Some k \<Longrightarrow>
   (\<not> isPast e d \<and> \<not> isToday e d \<and> \<not> isTomorrow e d) = (currentDay e + 1 < k)"
  by (auto simp: isPast_def isToday_def isTomorrow_def)

text \<open>
  Claim C2, as stated, fails in its fourth count: the count is taken by negation (not
  past, not today, not tomorrow, line 53), so an open task whose due date is no date
  is counted with the upcoming ones although it is not due later than tomorrow.
\<close>

theorem stats_upcoming_counterexample:
  "upcoming (stats sampleEnv [taskSomeday]) = 1
   \<and> countTasks (\<lambda>t. dueAfter sampleEnv (currentDay sampleEnv + 1) t \<and> \<not> completed t)
        [taskSomeday] = 0"
  by (simp add: stats_def countTasks_def dueAfter_def isPast_def isToday_def isTomorrow_def
      sample_defs more_defs)

text \<open>
  Claim C2, amended. For every task list the derived stats are four counts of tasks
  that are not completed: those due strictly before today, those due today, those due
  tomorrow, and those that are due later than tomorrow or have a due date that is no
  calendar date.
\<close>

theorem stats_counts:
  "stats e ts =
     \<lparr> past = countTasks (\<lambda>t. dueBefore e (currentDay e) t \<and> \<not> completed t) ts,
       today = countTasks (\<lambda>t. dueOn e (currentDay e) t \<and> \<not> completed t) ts,
       tomorrow = countTasks (\<lambda>t. dueOn e (currentDay e + 1) t \<and> \<not> completed t) ts,
       upcoming = countTasks (\<lambda>t. (dueAfter e (currentDay e + 1) t \<or> undated e t)
                                  \<and> \<not> completed t) ts \<rparr>"
proof -
  have cnt: "\<And>P. countTasks P ts = length (filter P ts)"
    by (simp add: countTasks_def flip: mset_filter)
  have p: "(\<lambda>t. isPast e (dueDate t) \<and> \<not> completed t)
         = (\<lambda>t. dueBefore e (currentDay e) t \<and> \<not> completed t)"
    by (rule ext) (simp add: isPast_def dueBefore_def)
  have t: "(\<lambda>t. isToday e (dueDate t) \<and> \<not> completed t)
         = (\<lambda>t. dueOn e (currentDay e) t \<and> \<not> completed t)"
    by (rule ext) (auto simp: isToday_def dueOn_def split: option.splits)
  have m: "(\<lambda>t. isTomorrow e (dueDate t) \<and> \<not> completed t)
         = (\<lambda>t. dueOn e (currentDay e + 1) t \<and> \<not> completed t)"
    by (rule ext) (auto simp: isTomorrow_def dueOn_def split: option.splits)
  have u: "(\<lambda>t. \<not> isPast e (dueDate t) \<and> \<not> isToday e (dueDate t)
                        \<and> \<not> isTomorrow e (dueDate t) \<and> \<not> completed t)
         = (\<lambda>t. (dueAfter e (currentDay e + 1) t \<or> undated e t) \<and> \<not> completed t)"
  proof (rule ext)
    fix t
    show "(\<not> isPast e (dueDate t) \<and> \<not> isToday e (dueDate t)
            \<and> \<not> isTomorrow e (dueDate t) \<and> \<not> completed t)
          = ((dueAfter e (currentDay e + 1) t \<or> undated e t) \<and> \<not> completed t)"
    proof (cases "dayOf e (dueDate t)")
      case None
      then show ?thesis
        by (simp add: isPast_def isToday_def isTomorrow_def dueAfter_def undated_def)
    next
      case (Some k)
      from upcoming_later [OF Some] Some show ?thesis
        by (auto simp add: dueAfter_def undated_def)
    qed
  qed
  show ?thesis
    unfolding stats_def cnt p t m u ..
qed

section \<open>Frame of the operations\<close>

lemma spread_noUpdates: "spread t noUpdates = t"
  by (simp add: spread_def noUpdates_def)

text \<open>
  Claim C10. \<open>updateTask\<close> keeps the length of the task list and the position of every
  task; the task at a position is replaced by its spread with the updates when its
  identifier is the given one and is left as it is otherwise; the spread keeps every
  field that the updates do not list; when no task has the identifier the state is
  returned as it was; and no other part of the state changes.
\<close>

theorem updateTask_frame:
  "length (tasks (updateTask i u st)) = length (tasks st)
   \<and> (\<forall>k < length (tasks st).
         tasks (updateTask i u st) ! k =
           (if id_task (tasks st ! k) = i then spread (tasks st ! k) u else tasks st ! k))
   \<and> (\<forall>t. (p_id u = None \<longrightarrow> id_task (spread t u) = id_task t)
          \<and> (p_title u = None \<longrightarrow> title (spread t u) = title t)
          \<and> (p_description u = None \<longrightarrow> description (spread t u) = description t)
          \<and> (p_dueDate u = None \<longrightarrow> dueDate (spread t u) = dueDate t)
          \<and> (p_completed u = None \<longrightarrow> completed (spread t u) = completed t)
          \<and> (p_priority u = None \<longrightarrow> priority (spread t u) = priority t)
          \<and> (p_labelIds u = None \<longrightarrow> labelIds (spread t u) = labelIds t)
          \<and> (p_createdAt u = None \<longrightarrow> createdAt (spread t u) = createdAt t))
   \<and> ((\<forall>t \<in> set (tasks st). id_task t \<noteq> i) \<longrightarrow> updateTask i u st = st)
   \<and> updateTask i u st = st\<lparr>tasks := tasks (updateTask i u st)\<rparr>"
proof -
  have len: "length (tasks (updateTask i u st)) = length (tasks st)"
    by (simp add: updateTask_def updateTaskList_def)
  have pos: "\<forall>k < length (tasks st).
         tasks (updateTask i u st) ! k =
           (if id_task (tasks st ! k) = i then spread (tasks st ! k) u else tasks st ! k)"
    by (simp add: updateTask_def updateTaskList_def)
  have fields: "\<forall>t. (p_id u = None \<longrightarrow> id_task (spread t u) = id_task t)
          \<and> (p_title u = None \<longrightarrow> title (spread t u) = title t)
          \<and> (p_description u = None \<longrightarrow> description (spread t u) = description t)
          \<and> (p_dueDate u = None \<longrightarrow> dueDate (spread t u) = dueDate t)
          \<and> (p_completed u = None \<longrightarrow> completed (spread t u) = completed t)
          \<and> (p_priority u = None \<longrightarrow> priority (spread t u) = priority t)
          \<and> (p_labelIds u = None \<longrightarrow> labelIds (spread t u) = labelIds t)
          \<and> (p_createdAt u = None \<longrightarrow> createdAt (spread t u) = createdAt t)"
    by (simp add: spread_def)
  have absent: "(\<forall>t \<in> set (tasks st). id_task t \<noteq> i) \<longrightarrow> updateTask i u st = st"
  proof
    assume none: "\<forall>t \<in> set (tasks st). id_task t \<noteq> i"
    then have "map (\<lambda>t. if id_task t = i then spread t u else t) (tasks st) = tasks st"
      by (simp add: map_idI)
    then show "updateTask i u st = st"
      by (simp add: updateTask_def updateTaskList_def)
  qed
  have rest: "updateTask i u st = st\<lparr>tasks := tasks (updateTask i u st)\<rparr>"
    by (simp add: updateTask_def)
  from len pos fields absent rest show ?thesis by blast
qed

text \<open>
  Claim C8. Deleting a label keeps the task list as it is and removes from the label
  list exactly the labels with the given identifier, keeping the others in their order;
  a task that refers to the deleted label is still in the task list, with the
  identifier among its \<open>labelIds\<close>, while no label of that identifier is left.
\<close>

theorem onDelete_frame:
  "tasks (onDelete i st) = tasks st
   \<and> labels (onDelete i st) = filter (\<lambda>l. id_label l \<noteq> i) (labels st)
   \<and> set (labels (onDelete i st)) = set (labels st) - {l. id_label l = i}
   \<and> (\<forall>t \<in> set (tasks st). i \<in> set (labelIds t) \<longrightarrow>
         t \<in> set (tasks (onDelete i st)) \<and> i \<notin> id_label ` set (labels (onDelete i st)))
   \<and> onDelete i st = st\<lparr>labels := labels (onDelete i st)\<rparr>"
  by (auto simp: onDelete_def)

section \<open>Identifiers\<close>

lemma saveTask_creates:
  "editingTask st = None \<Longrightarrow> tasks (saveTask amb d st) = newTask amb d # tasks st"
  by (simp add: saveTask_def)

lemma saveTask_edits:
  "editingTask st = Some edited \<Longrightarrow>
   tasks (saveTask amb d st) = updateTaskList (id_task edited) d (tasks st)"
  by (simp add: saveTask_def updateTask_def)

lemma updateTaskList_same_ids:
  "p_id d = None \<or> p_id d = Some i \<Longrightarrow> map id_task (updateTaskList i d ts) = map id_task ts"
  by (auto simp: updateTaskList_def spread_def)

text \<open>
  Claim C5, as stated, fails: \<open>saveTask\<close> takes the new identifier from the random
  number and does not look at the identifiers in the list. When \<^verbatim>\<open>Math.random()\<close> returns
  one half the new identifier is \<^verbatim>\<open>i\<close>, which a task of the sample state already has.
\<close>

theorem saveTask_duplicate_id_counterexample:
  "distinct (map id_task (tasks sampleState)) \<and> editingTask sampleState = None
   \<and> \<not> distinct (map id_task (tasks (saveTask sampleAmbient noUpdates sampleState)))"
  by (simp add: saveTask_def newTask_def substr_def sample_defs)

text \<open>
  Claim C5, amended. From a task list with unique identifiers, creating a task gives a
  list with unique identifiers exactly when the identifier drawn from the random number
  is not in the list yet; saving an edit whose data has no identifier, or has the
  identifier of the task being edited, keeps them unique. From a label list with unique
  identifiers, adding a label gives a list with unique identifiers exactly when the
  identifier made from the clock is not in the list yet. Saving a task leaves the labels
  alone and adding a label leaves the tasks.
\<close>

theorem creation_keeps_ids_unique:
  "(distinct (map id_task (tasks st)) \<and> editingTask st = None \<longrightarrow>
      (distinct (map id_task (tasks (saveTask amb d st)))
         \<longleftrightarrow> substr (randomText amb) 2 9 \<notin> set (map id_task (tasks st))))
   \<and> (distinct (map id_task (tasks st)) \<and> editingTask st = Some edited
        \<and> (p_id d = None \<or> p_id d = Some (id_task edited)) \<longrightarrow>
      distinct (map id_task (tasks (saveTask amb d st))))
   \<and> (distinct (map id_label (labels st)) \<longrightarrow>
      (distinct (map id_label (labels (onAdd amb n c st)))
         \<longleftrightarrow> ''l-'' @ decimal (nowMs amb) \<notin> set (map id_label (labels st))))
   \<and> labels (saveTask amb d st) = labels st
   \<and> tasks (onAdd amb n c st) = tasks st"
proof -
  have create: "distinct (map id_task (tasks st)) \<and> editingTask st = None \<longrightarrow>
      (distinct (map id_task (tasks (saveTask amb d st)))
         \<longleftrightarrow> substr (randomText amb) 2 9 \<notin> set (map id_task (tasks st)))"
    by (simp add: saveTask_creates newTask_def)
  have edit: "distinct (map id_task (tasks st)) \<and> editingTask st = Some edited
        \<and> (p_id d = None \<or> p_id d = Some (id_task edited)) \<longrightarrow>
      distinct (map id_task (tasks (saveTask amb d st)))"
  proof
    assume a: "distinct (map id_task (tasks st)) \<and> editingTask st = Some edited
        \<and> (p_id d = None \<or> p_id d = Some (id_task edited))"
    then have "map id_task (tasks (saveTask amb d st)) = map id_task (tasks st)"
      by (simp add: saveTask_edits updateTaskList_same_ids)
    with a show "distinct (map id_task (tasks (saveTask amb d st)))" by simp
  qed
  have label: "distinct (map id_label (labels st)) \<longrightarrow>
      (distinct (map id_label (labels (onAdd amb n c st)))
         \<longleftrightarrow> ''l-'' @ decimal (nowMs amb) \<notin> set (map id_label (labels st)))"
    by (simp add: onAdd_def)
  have other: "labels (saveTask amb d st) = labels st" "tasks (onAdd amb n c st) = tasks st"
    by (simp_all add: saveTask_def updateTask_def onAdd_def split: option.splits)
  from create edit label other show ?thesis by blast
qed

section \<open>Printing and parsing a JSON text\<close>

lemma below16: "d < 16 \<Longrightarrow> d \<in> {0, 1, 2, 3, 4, 5, 6, 7, 8, 9, 10, 11, 12, 13, 14, 15::nat}"
  by (simp only: insert_iff empty_iff) arith

lemma hexDigit_value: "d < 16 \<Longrightarrow> hexDigitValue (hexDigit d) = Some d"
  by (drule below16) (auto simp: hexDigit_def hexDigitValue_def)

lemma hexValue4_control:
  assumes "n < 32"
  shows "hexValue4 (CHR ''0'') (CHR ''0'') (hexDigit (n div 16)) (hexDigit (n mod 16)) = Some n"
proof -
  have "n div 16 < 16" using assms by simp
  then have hi: "hexDigitValue (hexDigit (n div 16)) = Some (n div 16)" by (rule hexDigit_value)
  have lo: "hexDigitValue (hexDigit (n mod 16)) = Some (n mod 16)" by (rule hexDigit_value) simp
  have zero: "hexDigitValue (CHR ''0'') = Some 0" by (simp add: hexDigitValue_def)
  show ?thesis by (simp add: hexValue4_def hi lo zero)
qed

lemma parseChars_escapeChar:
  "parseChars (escapeChar c @ rest) = consChar c (parseChars rest)"
proof -
  consider (special) "c \<in> {CHR 0x22, CHR 0x5C, CHR 0x08, CHR 0x0C, CHR 0x0A, CHR 0x0D, CHR 0x09}"
    | (control) "c \<notin> {CHR 0x22, CHR 0x5C, CHR 0x08, CHR 0x0C, CHR 0x0A, CHR 0x0D, CHR 0x09}" "isControl c"
    | (plain) "c \<notin> {CHR 0x22, CHR 0x5C, CHR 0x08, CHR 0x0C, CHR 0x0A, CHR 0x0D, CHR 0x09}" "\<not> isControl c"
    by blast
  then show ?thesis
  proof cases
    case special
    then show ?thesis by (auto simp: escapeChar_def unescape_def)
  next
    case control
    then have n: "(of_char c :: nat) < 32" by (simp add: isControl_def)
    from control show ?thesis
      by (simp add: escapeChar_def hexValue4_control [OF n])
  next
    case plain
    then show ?thesis by (simp add: escapeChar_def)
  qed
qed

lemma parseChars_escaped:
  "parseChars (concat (map escapeChar s) @ CHR 0x22 # rest) = Some (s, rest)"
  by (induction s) (simp_all add: parseChars_escapeChar consChar_def)

lemma stringify_head: "\<exists>c cs. JSON_stringify v = c # cs \<and> startsValue c"
  by (cases v) (simp_all add: quote_def startsValue_def)

lemma commaSep_head:
  "\<exists>c cs. commaSep (map JSON_stringify (x # xs)) = c # cs \<and> startsValue c"
proof -
  obtain c cs where "JSON_stringify x = c # cs" "startsValue c"
    using stringify_head by blast
  then show ?thesis by (cases xs) simp_all
qed

lemma member_head:
  "\<exists>cs. commaSep (map (\<lambda>(k, v). quote k @ CHR '':'' # JSON_stringify v) (kv # kvs)) = CHR 0x22 # cs"
  by (cases kvs; cases kv) (simp_all add: quote_def)

lemma skipWs_value: "startsValue c \<Longrightarrow> skipWs (c # cs) = c # cs"
  by (auto simp: skipWs_def isWs_def startsValue_def)

lemma skipWs_stringify: "skipWs (JSON_stringify v @ rest) = JSON_stringify v @ rest"
proof -
  obtain c cs where "JSON_stringify v = c # cs" "startsValue c"
    using stringify_head by blast
  then show ?thesis by (simp add: skipWs_value)
qed

lemma skipWs_punct [simp]:
  "skipWs (CHR '','' # s) = CHR '','' # s" "skipWs (CHR '']'' # s) = CHR '']'' # s"
  "skipWs (CHR ''}'' # s) = CHR ''}'' # s" "skipWs (CHR '':'' # s) = CHR '':'' # s"
  "skipWs (CHR 0x22 # s) = CHR 0x22 # s"
  by (simp_all add: skipWs_def isWs_def)

lemma parseElements_round:
  assumes IH: "\<And>x fuel rest. x \<in> set xs \<Longrightarrow> length (JSON_stringify x) \<le> fuel \<Longrightarrow>
                 parseValue fuel (JSON_stringify x @ rest) = Some (x, rest)"
    and "xs \<noteq> []" and "length (commaSep (map JSON_stringify xs)) < fuel"
  shows "parseElements fuel (commaSep (map JSON_stringify xs) @ CHR '']'' # rest) = Some (xs, rest)"
  using assms
proof (induction xs arbitrary: fuel)
  case Nil
  then show ?case by simp
next
  case (Cons x xs)
  from Cons.prems(3) obtain n where fuel: "fuel = Suc n" by (cases fuel) simp_all
  show ?case
  proof (cases xs)
    case Nil
    with Cons.prems(3) fuel have "length (JSON_stringify x) \<le> n" by simp
    then have "parseValue n (JSON_stringify x @ CHR '']'' # rest) = Some (x, CHR '']'' # rest)"
      using Cons.prems(1) by simp
    with Nil fuel show ?thesis by simp
  next
    case (Cons y ys)
    let ?tail = "commaSep (map JSON_stringify (y # ys))"
    from Cons Cons.prems(3) fuel
    have lx: "length (JSON_stringify x) \<le> n" and lt: "length ?tail < n" by simp_all
    have first: "parseValue n (JSON_stringify x @ CHR '','' # ?tail @ CHR '']'' # rest)
                 = Some (x, CHR '','' # ?tail @ CHR '']'' # rest)"
      using Cons.prems(1) lx by simp
    obtain c cs where head: "?tail = c # cs" "startsValue c"
      using commaSep_head by blast
    then have skip: "skipWs (?tail @ CHR '']'' # rest) = ?tail @ CHR '']'' # rest"
      by (simp add: skipWs_value)
    have "parseElements n (?tail @ CHR '']'' # rest) = Some (y # ys, rest)"
      using Cons.IH [of n] Cons.prems(1) lt Cons by simp
    with first skip Cons fuel show ?thesis by simp
  qed
qed

lemma memberText_eq: "(\<lambda>(k, v). quote k @ CHR '':'' # JSON_stringify v) = memberText"
  by (rule ext) (simp add: memberText_def split: prod.splits)

lemma parseMembers_one:
  assumes v: "parseValue n (JSON_stringify v @ after) = Some (v, after)"
  shows "parseMembers (Suc n) (memberText (k, v) @ after) =
           (case skipWs after of
              [] \<Rightarrow> None
            | d # ds \<Rightarrow>
                if d = CHR ''}'' then Some ([(k, v)], ds)
                else if d = CHR '','' then
                  (case parseMembers n (skipWs ds) of
                     None \<Rightarrow> None
                   | Some (kvs, rest') \<Rightarrow> Some ((k, v) # kvs, rest'))
                else None)"
proof -
  have shape: "memberText (k, v) @ after
              = CHR 0x22 # (concat (map escapeChar k) @ CHR 0x22 # (CHR '':'' # JSON_stringify v @ after))"
    by (simp add: memberText_def quote_def)
  show ?thesis
    unfolding shape
    by (simp add: parseChars_escaped skipWs_stringify v)
qed

lemma memberText_length: "length (JSON_stringify (snd kv)) \<le> length (memberText kv)"
  by (simp add: memberText_def)

lemma parseMembers_round:
  assumes IH: "\<And>k v fuel rest. (k, v) \<in> set kvs \<Longrightarrow> length (JSON_stringify v) \<le> fuel \<Longrightarrow>
                 parseValue fuel (JSON_stringify v @ rest) = Some (v, rest)"
    and "kvs \<noteq> []" and "length (commaSep (map memberText kvs)) < fuel"
  shows "parseMembers fuel (commaSep (map memberText kvs) @ CHR ''}'' # rest) = Some (kvs, rest)"
  using assms
proof (induction kvs arbitrary: fuel)
  case Nil
  then show ?case by simp
next
  case (Cons kv kvs)
  obtain k v where kv: "kv = (k, v)" by (cases kv)
  from Cons.prems(3) obtain n where fuel: "fuel = Suc n" by (cases fuel) simp_all
  show ?case
  proof (cases kvs)
    case Nil
    with Cons.prems(3) fuel have "length (memberText kv) \<le> n" by simp
    with memberText_length [of kv] kv have "length (JSON_stringify v) \<le> n" by simp
    then have "parseValue n (JSON_stringify v @ CHR ''}'' # rest) = Some (v, CHR ''}'' # rest)"
      using Cons.prems(1) [of k v n] kv by simp
    from parseMembers_one [OF this, of k] Nil fuel kv show ?thesis by simp
  next
    case (Cons kv' kvs')
    let ?tail = "commaSep (map memberText (kv' # kvs'))"
    from Cons Cons.prems(3) fuel have "length (memberText kv) + length ?tail < n" by simp
    with memberText_length [of kv] kv
    have lv: "length (JSON_stringify v) \<le> n" and lt: "length ?tail < n"
      by simp_all
    have "parseValue n (JSON_stringify v @ CHR '','' # ?tail @ CHR ''}'' # rest)
          = Some (v, CHR '','' # ?tail @ CHR ''}'' # rest)"
      using Cons.prems(1) [of k v n] lv kv by simp
    note one = parseMembers_one [OF this, of k]
    obtain cs where head: "?tail = CHR 0x22 # cs"
      using member_head [of kv' kvs'] by (auto simp: memberText_eq)
    then have skip: "skipWs (?tail @ CHR ''}'' # rest) = ?tail @ CHR ''}'' # rest"
      by simp
    have sub: "parseValue f (JSON_stringify v' @ r) = Some (v', r)"
      if "(k', v') \<in> set kvs" "length (JSON_stringify v') \<le> f" for k' v' f r
      using that Cons.prems(1) [of k' v' f r] by simp
    have "parseMembers n (?tail @ CHR ''}'' # rest) = Some (kv' # kvs', rest)"
      using Cons.IH [of n, OF sub] lt Cons by simp
    with one skip Cons fuel kv show ?thesis by simp
  qed
qed

lemma parseValue_round:
  "length (JSON_stringify v) \<le> fuel \<Longrightarrow> parseValue fuel (JSON_stringify v @ rest) = Some (v, rest)"
proof (induction v arbitrary: fuel rest)
  case JNull
  then obtain n where "fuel = Suc n" by (cases fuel) simp_all
  then show ?case by (simp add: prefix_code)
next
  case (JBool b)
  then obtain n where "fuel = Suc n" by (cases fuel) (simp_all split: if_splits)
  then show ?case by (simp add: prefix_code)
next
  case (JStr s)
  then obtain n where "fuel = Suc n" by (cases fuel) (simp_all add: quote_def)
  then show ?case by (simp add: quote_def parseChars_escaped)
next
  case (JArr xs)
  then obtain n where fuel: "fuel = Suc n" by (cases fuel) simp_all
  show ?case
  proof (cases xs)
    case Nil
    with fuel show ?thesis by simp
  next
    case (Cons y ys)
    obtain c cs where head: "commaSep (map JSON_stringify (y # ys)) = c # cs" "startsValue c"
      using commaSep_head by blast
    then have c: "c \<noteq> CHR '']''" "skipWs (c # cs @ CHR '']'' # rest) = c # cs @ CHR '']'' # rest"
      by (auto simp: startsValue_def skipWs_value)
    from JArr.prems fuel Cons have "length (commaSep (map JSON_stringify xs)) < n" by simp
    then have "parseElements n (commaSep (map JSON_stringify xs) @ CHR '']'' # rest) = Some (xs, rest)"
      using JArr.IH Cons by (intro parseElements_round) simp_all
    with fuel Cons head c show ?thesis by simp
  qed
next
  case (JObj kvs)
  then obtain n where fuel: "fuel = Suc n" by (cases fuel) simp_all
  show ?case
  proof (cases kvs)
    case Nil
    with fuel show ?thesis by simp
  next
    case (Cons kv kvs')
    obtain cs where head: "commaSep (map memberText (kv # kvs')) = CHR 0x22 # cs"
      using member_head [of kv kvs'] by (auto simp: memberText_eq)
    from JObj.prems fuel Cons have "length (commaSep (map memberText kvs)) < n"
      by (simp add: memberText_eq)
    moreover have "\<And>k v fuel rest. (k, v) \<in> set kvs \<Longrightarrow> length (JSON_stringify v) \<le> fuel \<Longrightarrow>
                 parseValue fuel (JSON_stringify v @ rest) = Some (v, rest)"
      using JObj.IH by force
    ultimately
    have "parseMembers n (commaSep (map memberText kvs) @ CHR ''}'' # rest) = Some (kvs, rest)"
      using Cons by (intro parseMembers_round) simp_all
    with fuel Cons head show ?thesis by (simp add: memberText_eq)
  qed
qed

lemma JSON_round_trip: "JSON_parse (JSON_stringify v) = Some v"
proof -
  have "parseValue (Suc (length (JSON_stringify v))) (JSON_stringify v @ []) = Some (v, [])"
    by (rule parseValue_round) simp
  moreover have "skipWs (JSON_stringify v) = JSON_stringify v"
    using skipWs_stringify [of v "[]"] by simp
  ultimately show ?thesis
    by (simp add: JSON_parse_def skipWs_def)
qed

section \<open>Loading and saving\<close>

lemma priorityText_inj: "priorityText p = priorityText q \<longleftrightarrow> p = q"
  by (cases p; cases q) (simp_all add: priorityText_def)

lemma JStr_list_inj: "map JStr a = map JStr b \<longleftrightarrow> a = b"
  by (simp add: inj_map_eq_map inj_on_def)

lemma taskJson_inj: "taskJson t = taskJson t' \<longleftrightarrow> t = t'"
  by (cases t; cases t') (auto simp: taskJson_def priorityText_inj JStr_list_inj)

lemma labelJson_inj: "labelJson l = labelJson l' \<longleftrightarrow> l = l'"
  by (cases l; cases l') (auto simp: labelJson_def)

lemma tasksJson_inj: "tasksJson ts = tasksJson ts' \<longleftrightarrow> ts = ts'"
  by (simp add: tasksJson_def inj_map_eq_map inj_on_def taskJson_inj)

lemma labelsJson_inj: "labelsJson ls = labelsJson ls' \<longleftrightarrow> ls = ls'"
  by (simp add: labelsJson_def inj_map_eq_map inj_on_def labelJson_inj)

lemma stringify_nonempty: "JSON_stringify v \<noteq> []"
  using stringify_head [of v] by auto

lemma JSON_parse_empty: "JSON_parse [] = None"
  by (simp add: JSON_parse_def skipWs_def)

lemma loadStored_written:
  "parse (JSON_stringify v) = Some v \<Longrightarrow>
   loadStored parse (storage(key \<mapsto> JSON_stringify v)) key seed = v"
  by (simp add: loadStored_def stringify_nonempty)

text \<open>
  Claim C6. For every task list and every label list, parsing the text that
  \<open>JSON_stringify\<close> prints for the list gives the list back, and so does the initializer
  of the state when it reads what the effect has written. The value of a list
  determines the list, so what is read is identical to what was written.
\<close>

theorem persistence_round_trip:
  "JSON_parse (JSON_stringify (tasksJson ts)) = Some (tasksJson ts)
   \<and> JSON_parse (JSON_stringify (labelsJson ls)) = Some (labelsJson ls)
   \<and> initialTasks JSON_parse (persistTasks ts storage) INITIAL_TASKS = tasksJson ts
   \<and> initialLabels JSON_parse (persistLabels ls storage) INITIAL_LABELS = labelsJson ls
   \<and> (tasksJson ts' = tasksJson ts \<longleftrightarrow> ts' = ts)
   \<and> (labelsJson ls' = labelsJson ls \<longleftrightarrow> ls' = ls)"
  by (simp add: JSON_round_trip initialTasks_def initialLabels_def persistTasks_def
      persistLabels_def loadStored_written tasksJson_inj labelsJson_inj)

lemma loadStored_readStored:
  "loadStored parse m key seed
     = readStored (\<lambda>s. attemptOf (parse s)) \<lparr> items = m, readable = True \<rparr> key seed"
  by (simp add: loadStored_def readStored_def getItem_def attemptOf_def split: option.splits)

lemma parse_brackets: "JSON_parse ''[]'' = Some (JArr [])"
  by (simp add: JSON_parse_def skipWs_def isWs_def)

lemma parse_garbage: "JSON_parse ''not json'' = None"
  by (simp add: JSON_parse_def skipWs_def isWs_def prefix_code)

text \<open>
  Claim C7, as stated, fails in what it says beyond the fallback. A stored entry that
  is present and parses is not used when the storage cannot be read: \<^verbatim>\<open>getItem\<close> stands
  in the same \<^verbatim>\<open>try\<close> block, and the seed is taken. And the unparsable entry is not the
  only failure the program handles, nor is every failure handled silently: without an
  element \<^verbatim>\<open>#root\<close>, \<^verbatim>\<open>index.tsx\<close> writes an error to the console and renders nothing.
\<close>

theorem other_failures_counterexample:
  "items blockedStore ''tasks_v4_premium'' = Some ''[]''
   \<and> parseOrThrow ''[]'' = Returns (JArr [])
   \<and> tasksInitializer parseOrThrow blockedStore (tasksJson sampleTasks)
       = tasksJson sampleTasks
   \<and> tasksJson sampleTasks \<noteq> JArr []
   \<and> console (indexMain (None :: unit option))
       = [ConsoleLog startMessage, ConsoleError rootMissing]
   \<and> rendered (indexMain (None :: unit option)) = None"
  by (simp add: blockedStore_def parse_brackets attemptOf_def parseOrThrow_def tasksInitializer_def
      readStored_def getItem_def indexMain_def tasksJson_def sample_defs)

text \<open>
  Claim C7, amended. On startup the initial tasks, and likewise the initial labels, are
  the built-in seed when the storage cannot be read, when the stored entry is absent,
  when it is empty and when it cannot be parsed; otherwise they are the parsed stored
  value. The initializer has no other outcome: it gives the seed or a parsed stored
  value, never an error. The program handles one more failure: when the document has
  no element \<^verbatim>\<open>#root\<close>, it writes an error to the console and renders nothing, and
  with the element it renders into it without an error.
\<close>

theorem initial_state_fallback:
  "(\<not> readable store \<longrightarrow> readStored parse store key seed = seed)
   \<and> (readable store \<and> items store key = None \<longrightarrow> readStored parse store key seed = seed)
   \<and> (\<forall>text. readable store \<and> items store key = Some text
          \<and> (text = [] \<or> parse text = Throws) \<longrightarrow> readStored parse store key seed = seed)
   \<and> (\<forall>text v. readable store \<and> items store key = Some text \<and> text \<noteq> []
          \<and> parse text = Returns v \<longrightarrow> readStored parse store key seed = v)
   \<and> (readStored parse store key seed = seed
       \<or> (\<exists>text v. readable store \<and> items store key = Some text \<and> text \<noteq> []
             \<and> parse text = Returns v \<and> readStored parse store key seed = v))
   \<and> tasksInitializer parse store seed = readStored parse store ''tasks_v4_premium'' seed
   \<and> labelsInitializer parse store seed = readStored parse store ''labels_v4_premium'' seed
   \<and> indexMain None = \<lparr> console = [ConsoleLog startMessage, ConsoleError rootMissing],
                         rendered = None \<rparr>
   \<and> indexMain (Some c) = \<lparr> console = [ConsoleLog startMessage], rendered = Some c \<rparr>"
proof -
  have blocked: "\<not> readable store \<longrightarrow> readStored parse store key seed = seed"
    by (simp add: readStored_def getItem_def)
  have absent: "readable store \<and> items store key = None \<longrightarrow> readStored parse store key seed = seed"
    by (simp add: readStored_def getItem_def)
  have unusable: "\<forall>text. readable store \<and> items store key = Some text
          \<and> (text = [] \<or> parse text = Throws) \<longrightarrow> readStored parse store key seed = seed"
    by (auto simp: readStored_def getItem_def)
  have stored: "\<forall>text v. readable store \<and> items store key = Some text \<and> text \<noteq> []
          \<and> parse text = Returns v \<longrightarrow> readStored parse store key seed = v"
    by (simp add: readStored_def getItem_def)
  have either: "readStored parse store key seed = seed
       \<or> (\<exists>text v. readable store \<and> items store key = Some text \<and> text \<noteq> []
             \<and> parse text = Returns v \<and> readStored parse store key seed = v)"
    by (auto simp: readStored_def getItem_def split: option.splits attempt.splits)
  have keys: "tasksInitializer parse store seed = readStored parse store ''tasks_v4_premium'' seed"
    "labelsInitializer parse store seed = readStored parse store ''labels_v4_premium'' seed"
    by (simp_all add: tasksInitializer_def labelsInitializer_def)
  have boot: "indexMain None = \<lparr> console = [ConsoleLog startMessage, ConsoleError rootMissing],
                         rendered = None \<rparr>"
    "indexMain (Some c) = \<lparr> console = [ConsoleLog startMessage], rendered = Some c \<rparr>"
    by (simp_all add: indexMain_def)
  from blocked absent unusable stored either keys boot show ?thesis by blast
qed

section \<open>The properties on the sample data\<close>

lemma sample_filtered_tomorrow:
  "filteredTasks sampleEnv sampleTasks [] RTomorrow = [taskCall]"
  by (simp add: filteredTasks_def keepTask_def matchesSearch_def orElse_def toLowerCase_def
      lowerChar_def capitals_def smalls_def prefix_code compareTasks_def sortCompare_def isTomorrow_def sample_defs)

theorem filteredTasks_contents_witness:
  "filteredTasks sampleEnv sampleTasks [] RAll = [taskMilk, taskCall, taskTrip, taskReport]
   \<and> mset [taskMilk, taskCall, taskTrip, taskReport] = mset sampleTasks
   \<and> filteredTasks sampleEnv sampleTasks [] RToday = [taskReport]
   \<and> filter_mset (\<lambda>t. RToday = RAll \<or> inRange sampleEnv RToday (dueDate t)) (mset sampleTasks)
       = mset [taskReport]
   \<and> filteredTasks sampleEnv [taskCafe, taskCall] (''caf'' @ [CHR 0xE9]) RAll = [taskCafe]
   \<and> filter_mset
       (\<lambda>t. (containsIgnoringCase (title t) (''caf'' @ [CHR 0xE9])
              \<or> containsIgnoringCase (description t) (''caf'' @ [CHR 0xE9]))
             \<and> (RAll = RAll \<or> inRange sampleEnv RAll (dueDate t)))
       (mset [taskCafe, taskCall]) = mset [taskCafe]"
proof -
  note today = filteredTasks_contents [of sampleEnv sampleTasks "[]" RToday]
  note cafe = filteredTasks_contents [of sampleEnv "[taskCafe, taskCall]" "''caf'' @ [CHR 0xE9]" RAll]
  from today have whole: "mset (filteredTasks sampleEnv sampleTasks [] RAll) = mset sampleTasks"
    by (rule conjunct2 [THEN conjunct2])
  from today have ranged: "mset (filteredTasks sampleEnv sampleTasks [] RToday) =
       filter_mset (\<lambda>t. RToday = RAll \<or> inRange sampleEnv RToday (dueDate t)) (mset sampleTasks)"
    by (rule conjunct2 [THEN conjunct1])
  from cafe have matched: "mset (filteredTasks sampleEnv [taskCafe, taskCall] (''caf'' @ [CHR 0xE9]) RAll) =
     filter_mset
       (\<lambda>t. (containsIgnoringCase (title t) (''caf'' @ [CHR 0xE9])
              \<or> containsIgnoringCase (description t) (''caf'' @ [CHR 0xE9]))
             \<and> (RAll = RAll \<or> inRange sampleEnv RAll (dueDate t)))
       (mset [taskCafe, taskCall])"
    by (rule conjunct1)
  from whole ranged matched show ?thesis
    by (simp only: sample_filtered_all sample_filtered_today sample_filtered_cafe simp_thms)
qed

theorem empty_query_filter_witness:
  "matchesSearch [] taskCall
   \<and> sortBy (compareTasks sampleEnv) (filter (\<lambda>t. inRange sampleEnv RTomorrow (dueDate t)) sampleTasks)
       = [taskCall]"
  using empty_query_filter [of sampleEnv sampleTasks RTomorrow]
  by (simp only: sample_filtered_tomorrow simp_thms)

theorem range_partition_witness:
  "length (filter (\<lambda>r. inRange sampleEnv r ''2024-01-01'') [RPast, RToday, RTomorrow, RUpcoming]) = 1
   \<and> inRange sampleEnv RPast ''2024-01-01'' \<and> inRange sampleEnv RToday ''2024-01-02''
   \<and> inRange sampleEnv RTomorrow ''2024-01-03'' \<and> inRange sampleEnv RUpcoming ''2024-01-09''"
  using range_partition [of sampleEnv "''2024-01-01''"]
  by (simp add: isPast_def isToday_def isTomorrow_def sample_defs)

lemma sample_stats_more:
  "stats sampleEnv (taskSomeday # sampleTasks)
     = \<lparr> past = 1, today = 0, tomorrow = 1, upcoming = 2 \<rparr>"
  by (simp add: stats_def isPast_def isToday_def isTomorrow_def sample_defs more_defs)

theorem stats_counts_witness:
  "\<lparr> past = countTasks (\<lambda>t. dueBefore sampleEnv (currentDay sampleEnv) t \<and> \<not> completed t)
              (taskSomeday # sampleTasks),
     today = countTasks (\<lambda>t. dueOn sampleEnv (currentDay sampleEnv) t \<and> \<not> completed t)
              (taskSomeday # sampleTasks),
     tomorrow = countTasks (\<lambda>t. dueOn sampleEnv (currentDay sampleEnv + 1) t \<and> \<not> completed t)
              (taskSomeday # sampleTasks),
     upcoming = countTasks (\<lambda>t. (dueAfter sampleEnv (currentDay sampleEnv + 1) t
                                   \<or> undated sampleEnv t) \<and> \<not> completed t)
              (taskSomeday # sampleTasks) \<rparr>
     = \<lparr> past = 1, today = 0, tomorrow = 1, upcoming = 2 \<rparr>"
  using stats_counts [of sampleEnv "taskSomeday # sampleTasks"]
  by (simp only: sample_stats_more)


theorem updateTask_frame_witness:
  "tasks (updateTask ''p7q'' (noUpdates\<lparr>p_title := Some ''Call Bea''\<rparr>) sampleState)
     = [taskTrip, taskReport, taskCall\<lparr>title := ''Call Bea''\<rparr>, taskMilk]
   \<and> list_all (\<lambda>t. id_task t \<noteq> ''none'') (tasks sampleState)
   \<and> updateTask ''none'' (noUpdates\<lparr>p_title := Some ''Call Bea''\<rparr>) sampleState = sampleState"
proof -
  have absent: "list_all (\<lambda>t. id_task t \<noteq> ''none'') (tasks sampleState)"
    by (simp add: sample_defs)
  then have "\<forall>t \<in> set (tasks sampleState). id_task t \<noteq> ''none''"
    by (simp add: list_all_iff)
  with updateTask_frame [of "''none''" "noUpdates\<lparr>p_title := Some ''Call Bea''\<rparr>" sampleState]
  have same: "updateTask ''none'' (noUpdates\<lparr>p_title := Some ''Call Bea''\<rparr>) sampleState = sampleState"
    by blast
  have changed: "tasks (updateTask ''p7q'' (noUpdates\<lparr>p_title := Some ''Call Bea''\<rparr>) sampleState)
     = [taskTrip, taskReport, taskCall\<lparr>title := ''Call Bea''\<rparr>, taskMilk]"
    by (simp add: updateTask_def updateTaskList_def spread_def noUpdates_def sample_defs)
  from changed absent same show ?thesis by blast
qed

theorem onDelete_frame_witness:
  "tasks (onDelete ''l-1704153600000'' sampleState) = sampleTasks
   \<and> labels (onDelete ''l-1704153600000'' sampleState) = [labelWork]
   \<and> taskMilk \<in> set (tasks (onDelete ''l-1704153600000'' sampleState))
   \<and> ''l-1704153600000'' \<in> set (labelIds taskMilk)"
  using onDelete_frame [of "''l-1704153600000''" sampleState]
  by (simp add: sample_defs)

lemma edit_sample:
  "distinct (map id_task (tasks (sampleState\<lparr>editingTask := Some taskCall\<rparr>)))"
  "editingTask (sampleState\<lparr>editingTask := Some taskCall\<rparr>) = Some taskCall"
  "p_id (noUpdates\<lparr>p_id := Some ''p7q'', p_title := Some ''Call Bea''\<rparr>) = Some (id_task taskCall)"
  by (simp_all add: sample_defs)

theorem creation_keeps_ids_unique_witness:
  "distinct (map id_task (tasks sampleState)) \<and> editingTask sampleState = None
   \<and> substr (randomText (sampleAmbient\<lparr>randomText := ''0.4fzyo82mvyr''\<rparr>)) 2 9 = ''4fzyo82mv''
   \<and> ''4fzyo82mv'' \<notin> set (map id_task (tasks sampleState))
   \<and> distinct (map id_task (tasks (saveTask (sampleAmbient\<lparr>randomText := ''0.4fzyo82mvyr''\<rparr>) noUpdates sampleState)))
   \<and> editingTask (sampleState\<lparr>editingTask := Some taskCall\<rparr>) = Some taskCall
   \<and> p_id (noUpdates\<lparr>p_id := Some ''p7q'', p_title := Some ''Call Bea''\<rparr>) = Some (id_task taskCall)
   \<and> distinct (map id_task (tasks (saveTask sampleAmbient
        (noUpdates\<lparr>p_id := Some ''p7q'', p_title := Some ''Call Bea''\<rparr>)
        (sampleState\<lparr>editingTask := Some taskCall\<rparr>))))
   \<and> distinct (map id_label (labels sampleState))
   \<and> ''l-'' @ decimal (nowMs (sampleAmbient\<lparr>nowMs := 1704153600002\<rparr>)) = ''l-1704153600002''
   \<and> ''l-1704153600002'' \<notin> set (map id_label (labels sampleState))
   \<and> distinct (map id_label (labels (onAdd (sampleAmbient\<lparr>nowMs := 1704153600002\<rparr>) ''Errands'' ''#f97316'' sampleState)))"
proof -
  let ?amb = "sampleAmbient\<lparr>randomText := ''0.4fzyo82mvyr''\<rparr>"
  let ?amb2 = "sampleAmbient\<lparr>nowMs := 1704153600002\<rparr>"
  let ?edit = "noUpdates\<lparr>p_id := Some ''p7q'', p_title := Some ''Call Bea''\<rparr>"
  let ?editing = "sampleState\<lparr>editingTask := Some taskCall\<rparr>"
  have a: "distinct (map id_task (tasks sampleState))" "editingTask sampleState = None"
    by (simp_all add: sample_defs)
  have b: "substr (randomText ?amb) 2 9 = ''4fzyo82mv''"
    by (simp add: substr_def)
  have c: "''4fzyo82mv'' \<notin> set (map id_task (tasks sampleState))"
    by (simp add: sample_defs)
  have d: "distinct (map id_label (labels sampleState))"
    by (simp add: sample_defs)
  have e: "''l-'' @ decimal (nowMs ?amb2) = ''l-1704153600002''"
    by (simp add: decimal.simps digitChar_def)
  have f: "''l-1704153600002'' \<notin> set (map id_label (labels sampleState))"
    by (simp add: sample_defs)
  from creation_keeps_ids_unique [where st = sampleState and amb = ?amb and d = noUpdates] a b c
  have g: "distinct (map id_task (tasks (saveTask ?amb noUpdates sampleState)))"
    by simp
  from creation_keeps_ids_unique [where st = sampleState and amb = ?amb2 and n = "''Errands''"
      and c = "''#f97316''"] d e f
  have h: "distinct (map id_label (labels (onAdd ?amb2 ''Errands'' ''#f97316'' sampleState)))"
    by simp
  from creation_keeps_ids_unique [where st = ?editing and edited = taskCall
      and amb = sampleAmbient and d = ?edit] edit_sample
  have i: "distinct (map id_task (tasks (saveTask sampleAmbient ?edit ?editing)))"
    by blast
  from a b c d e f g h i edit_sample(2,3) show ?thesis by blast
qed

theorem initial_state_fallback_witness:
  "\<not> readable blockedStore
   \<and> tasksInitializer parseOrThrow blockedStore (tasksJson sampleTasks) = tasksJson sampleTasks
   \<and> tasksInitializer parseOrThrow \<lparr> items = Map.empty, readable = True \<rparr> (tasksJson sampleTasks)
       = tasksJson sampleTasks
   \<and> tasksInitializer parseOrThrow \<lparr> items = [''tasks_v4_premium'' \<mapsto> []], readable = True \<rparr>
        (tasksJson sampleTasks) = tasksJson sampleTasks
   \<and> parseOrThrow ''not json'' = Throws
   \<and> tasksInitializer parseOrThrow
        \<lparr> items = [''tasks_v4_premium'' \<mapsto> ''not json''], readable = True \<rparr>
        (tasksJson sampleTasks) = tasksJson sampleTasks
   \<and> parseOrThrow ''[]'' = Returns (JArr [])
   \<and> tasksInitializer parseOrThrow \<lparr> items = [''tasks_v4_premium'' \<mapsto> ''[]''], readable = True \<rparr>
        (tasksJson sampleTasks) = JArr []
   \<and> labelsInitializer parseOrThrow \<lparr> items = [''tasks_v4_premium'' \<mapsto> ''[]''], readable = True \<rparr>
        (labelsJson [labelHome]) = labelsJson [labelHome]
   \<and> indexMain (Some ()) = \<lparr> console = [ConsoleLog startMessage], rendered = Some () \<rparr>"
proof -
  let ?seed = "tasksJson sampleTasks"
  let ?key = "''tasks_v4_premium''"
  let ?empty = "\<lparr> items = Map.empty, readable = True \<rparr>"
  let ?blank = "\<lparr> items = [?key \<mapsto> []], readable = True \<rparr>"
  let ?broken = "\<lparr> items = [?key \<mapsto> ''not json''], readable = True \<rparr>"
  let ?stored = "\<lparr> items = [?key \<mapsto> ''[]''], readable = True \<rparr>"
  note tasks = initial_state_fallback [where parse = parseOrThrow and key = ?key and seed = ?seed
      and c = "()"]
  note labels = initial_state_fallback [where parse = parseOrThrow
      and key = "''labels_v4_premium''" and seed = "labelsJson [labelHome]" and c = "()"]
  have garbage: "parseOrThrow ''not json'' = Throws"
    by (simp add: parseOrThrow_def attemptOf_def parse_garbage)
  have brackets: "parseOrThrow ''[]'' = Returns (JArr [])"
    by (simp add: parseOrThrow_def attemptOf_def parse_brackets)
  have blocked: "\<not> readable blockedStore" by (simp add: blockedStore_def)
  have init: "tasksInitializer parseOrThrow store ?seed = readStored parseOrThrow store ?key ?seed"
    for store
    using tasks [where store = store] by blast
  have a: "readStored parseOrThrow blockedStore ?key ?seed = ?seed"
    using tasks [where store = blockedStore] blocked by blast
  have "readable ?empty" "items ?empty ?key = None" by simp_all
  then have b: "readStored parseOrThrow ?empty ?key ?seed = ?seed"
    using tasks [where store = ?empty] by blast
  have "readable ?blank" "items ?blank ?key = Some []" by simp_all
  then have c: "readStored parseOrThrow ?blank ?key ?seed = ?seed"
    using tasks [where store = ?blank] by blast
  have "readable ?broken" "items ?broken ?key = Some ''not json''" by simp_all
  then have d: "readStored parseOrThrow ?broken ?key ?seed = ?seed"
    using tasks [where store = ?broken] garbage by blast
  have full: "readable ?stored" "items ?stored ?key = Some ''[]''" "''[]'' \<noteq> []"
    "items ?stored ''labels_v4_premium'' = None"
    by simp_all
  then have e: "readStored parseOrThrow ?stored ?key ?seed = JArr []"
    using tasks [where store = ?stored] brackets by blast
  have f: "readStored parseOrThrow ?stored ''labels_v4_premium'' (labelsJson [labelHome])
           = labelsJson [labelHome]"
    using labels [where store = ?stored] full by blast
  have f': "labelsInitializer parseOrThrow ?stored (labelsJson [labelHome])
           = readStored parseOrThrow ?stored ''labels_v4_premium'' (labelsJson [labelHome])"
    using labels [where store = ?stored] by blast
  have g: "indexMain (Some ()) = \<lparr> console = [ConsoleLog startMessage], rendered = Some () \<rparr>"
    using tasks [where store = blockedStore] by blast
  from blocked garbage brackets g show ?thesis
    by (simp only: init a b c d e f f' simp_thms)
qed

lemma sample_text:
  "JSON_stringify (labelsJson [labelHome]) =
     ''[{\"id\":\"l-1704153600000\",\"name\":\"Home\",\"color\":\"#22c55e\"}]''"
  by (simp add: labelsJson_def labelJson_def labelHome_def quote_def escapeChar_def isControl_def)

theorem persistence_round_trip_witness:
  "JSON_parse (JSON_stringify (tasksJson sampleTasks)) = Some (tasksJson sampleTasks)
   \<and> JSON_parse ''[{\"id\":\"l-1704153600000\",\"name\":\"Home\",\"color\":\"#22c55e\"}]''
       = Some (labelsJson [labelHome])
   \<and> initialTasks JSON_parse (persistTasks sampleTasks Map.empty) (JArr []) = tasksJson sampleTasks"
  using persistence_round_trip [of sampleTasks "[labelHome]" Map.empty "JArr []"]
  by (simp add: sample_text)

end
